theory Spec2Isabelle
  imports Main "HOL-Library.Word"
begin

unbundle bit_operations_syntax

section \<open>Primitive types of the SDK\<close>

text \<open>
  The headers \<^verbatim>\<open>mega/useralerts.h\<close> and \<^verbatim>\<open>mega/setandelement.h\<close> use the types
  \<^verbatim>\<open>handle\<close>, \<^verbatim>\<open>m_time_t\<close> and \<^verbatim>\<open>nameid\<close> of \<^verbatim>\<open>types.h\<close>. A handle is an
  unsigned 64-bit value and a time stamp a signed 64-bit value (read through \<open>sint\<close>).
  \<^verbatim>\<open>int\<close> and \<^verbatim>\<open>unsigned\<close> are 32-bit words: the conversion between the two keeps
  the bit pattern, \<open>sint\<close> reads the signed value and the order \<open><\<close> on words is the
  unsigned one. A \<^verbatim>\<open>nameid\<close> packs the characters given to \<^verbatim>\<open>MAKENAMEIDn\<close>; the
  model keeps the characters.
\<close>

type_synonym handle = "64 word"
type_synonym m_time_t = "64 word"
type_synonym nameid = string
type_synonym c_int = "32 word"
type_synonym c_unsigned = "32 word"

definition type_nusm :: nameid where
  "type_nusm = ''mcsmp''"

definition type_dsm :: nameid where
  "type_dsm = ''mcsmr''"

section \<open>UserAlert::Base\<close>

text \<open>\<^verbatim>\<open>struct Persistent\<close>, the variables to be persisted, with its default member
  initialisers.\<close>

record Persistent =
  timestamp :: m_time_t
  userHandle :: handle
  userEmail :: string
  relevant :: bool
  seen :: bool

definition Persistent_init :: Persistent where
  "Persistent_init =
     \<lparr>timestamp = 0, userHandle = 0, userEmail = [], relevant = True, seen = False\<rparr>"

text \<open>\<^verbatim>\<open>struct Base\<close>. The field \<^verbatim>\<open>id\<close> is \<open>alert_id\<close> here (\<open>id\<close> is the
  identity function of HOL). \<open>mRemoved\<close> is the private member outside \<open>pst\<close>.\<close>

record Base =
  type :: nameid
  tag :: c_int
  alert_id :: c_unsigned
  pst :: Persistent
  mRemoved :: bool

definition Base_ts :: "'a Base_scheme \<Rightarrow> m_time_t" where
  "Base_ts a = timestamp (pst a)"

definition Base_user :: "'a Base_scheme \<Rightarrow> handle" where
  "Base_user a = userHandle (pst a)"

definition Base_email :: "'a Base_scheme \<Rightarrow> string" where
  "Base_email a = userEmail (pst a)"

definition Base_setEmail :: "string \<Rightarrow> 'a Base_scheme \<Rightarrow> 'a Base_scheme" where
  "Base_setEmail eml a = a\<lparr>pst := (pst a)\<lparr>userEmail := eml\<rparr>\<rparr>"

definition Base_relevant :: "'a Base_scheme \<Rightarrow> bool" where
  "Base_relevant a = relevant (pst a)"

definition Base_setRelevant :: "bool \<Rightarrow> 'a Base_scheme \<Rightarrow> 'a Base_scheme" where
  "Base_setRelevant r a = a\<lparr>pst := (pst a)\<lparr>relevant := r\<rparr>\<rparr>"

definition Base_seen :: "'a Base_scheme \<Rightarrow> bool" where
  "Base_seen a = seen (pst a)"

definition Base_setSeen :: "bool \<Rightarrow> 'a Base_scheme \<Rightarrow> 'a Base_scheme" where
  "Base_setSeen s a = a\<lparr>pst := (pst a)\<lparr>seen := s\<rparr>\<rparr>"

definition Base_setRemoved :: "'a Base_scheme \<Rightarrow> 'a Base_scheme" where
  "Base_setRemoved a = a\<lparr>mRemoved := True\<rparr>"

definition Base_removed :: "'a Base_scheme \<Rightarrow> bool" where
  "Base_removed a = mRemoved a"

section \<open>Scheduled-meeting alerts\<close>

definition SCHEDULED_USER_ALERT_INVALID :: c_unsigned where
  "SCHEDULED_USER_ALERT_INVALID = 0"

definition SCHEDULED_USER_ALERT_NEW :: c_unsigned where
  "SCHEDULED_USER_ALERT_NEW = 1"

definition SCHEDULED_USER_ALERT_UPDATE :: c_unsigned where
  "SCHEDULED_USER_ALERT_UPDATE = 2"

definition SCHEDULED_USER_ALERT_DELETED :: c_unsigned where
  "SCHEDULED_USER_ALERT_DELETED = 3"

record ScheduledMeetingBase = Base +
  mSchedMeetingsSubtype :: c_unsigned
  mSchedMeetingHandle :: handle
  mParentSMHandle :: handle

text \<open>
  The value constructor of \<^verbatim>\<open>ScheduledMeetingBase\<close>. The constructor of the \<^verbatim>\<open>Base\<close>
  sub-object is the parameter \<open>BaseC\<close> (called with an empty email, \<^verbatim>\<open>string()\<close>).
\<close>

definition ScheduledMeetingBase_ctor ::
  "(nameid \<Rightarrow> handle \<Rightarrow> string \<Rightarrow> m_time_t \<Rightarrow> c_unsigned \<Rightarrow> Base) \<Rightarrow>
   handle \<Rightarrow> m_time_t \<Rightarrow> c_unsigned \<Rightarrow> handle \<Rightarrow> handle \<Rightarrow> nameid \<Rightarrow> c_unsigned \<Rightarrow>
   ScheduledMeetingBase" where
  "ScheduledMeetingBase_ctor BaseC ou ts i sm parentSM userAlertType ty =
     Base.extend (BaseC userAlertType ou [] ts i)
       (ScheduledMeetingBase.fields ty sm parentSM)"

definition NewScheduledMeeting ::
  "(nameid \<Rightarrow> handle \<Rightarrow> string \<Rightarrow> m_time_t \<Rightarrow> c_unsigned \<Rightarrow> Base) \<Rightarrow>
   handle \<Rightarrow> m_time_t \<Rightarrow> c_unsigned \<Rightarrow> handle \<Rightarrow> handle \<Rightarrow> ScheduledMeetingBase" where
  "NewScheduledMeeting BaseC ou ts i sm parentSM =
     ScheduledMeetingBase_ctor BaseC ou ts i sm parentSM type_nusm SCHEDULED_USER_ALERT_NEW"

text \<open>\<^verbatim>\<open>UNDEF\<close> is a constant of \<^verbatim>\<open>types.h\<close>; it is the parameter \<open>UNDEF\<close> here.\<close>

definition DeletedScheduledMeeting ::
  "(nameid \<Rightarrow> handle \<Rightarrow> string \<Rightarrow> m_time_t \<Rightarrow> c_unsigned \<Rightarrow> Base) \<Rightarrow> handle \<Rightarrow>
   handle \<Rightarrow> m_time_t \<Rightarrow> c_unsigned \<Rightarrow> handle \<Rightarrow> ScheduledMeetingBase" where
  "DeletedScheduledMeeting BaseC UNDEF ou ts i sm =
     ScheduledMeetingBase_ctor BaseC ou ts i sm UNDEF type_dsm SCHEDULED_USER_ALERT_NEW"

text \<open>
  \<^verbatim>\<open>ScheduledMeetingBase::serialize\<close>. \<^verbatim>\<open>Base::serialize\<close> and the writer's
  \<^verbatim>\<open>serializeu32\<close> and \<^verbatim>\<open>serializehandle\<close> have no body in the headers: each is a
  parameter, a function from the string written so far to the string after the call.
  The result of \<^verbatim>\<open>Base::serialize\<close> is dropped by the caller, as in the source.
\<close>

definition ScheduledMeetingBase_serialize ::
  "(Base \<Rightarrow> string \<Rightarrow> string) \<Rightarrow> (c_unsigned \<Rightarrow> string \<Rightarrow> string) \<Rightarrow>
   (handle \<Rightarrow> string \<Rightarrow> string) \<Rightarrow> ScheduledMeetingBase \<Rightarrow> string \<Rightarrow> bool \<times> string" where
  "ScheduledMeetingBase_serialize Base_serialize serializeu32 serializehandle a d =
     (let d1 = Base_serialize (Base.truncate a) d;
          d2 = serializeu32 (mSchedMeetingsSubtype a) d1;
          d3 = serializehandle (mSchedMeetingHandle a) d2;
          d4 = (if mSchedMeetingsSubtype a = SCHEDULED_USER_ALERT_NEW
                   \<or> mSchedMeetingsSubtype a = SCHEDULED_USER_ALERT_UPDATE
                then serializehandle (mParentSMHandle a) d3
                else d3)
      in (True, d4))"

section \<open>Failures and \<^verbatim>\<open>std::bitset\<close>\<close>

text \<open>
  A failed \<^verbatim>\<open>assert\<close> aborts the program, and \<^verbatim>\<open>operator[]\<close> of a \<^verbatim>\<open>std::bitset\<close>
  has undefined behaviour for a position outside the bitset. Both are values here, so that
  a theorem can say that neither happens.
\<close>

datatype failure = AssertionFailed | UndefinedBehaviour

text \<open>
  A \<^verbatim>\<open>std::bitset<N>\<close> is a word of \<open>N\<close> bits. The position is given as the value of
  the \<^verbatim>\<open>int\<close> the callers index with: converted to \<^verbatim>\<open>size_t\<close>, a negative value is
  a position far beyond any bitset, whatever the width of \<^verbatim>\<open>size_t\<close>.
\<close>

definition bitset_test :: "'a::len word \<Rightarrow> int \<Rightarrow> failure + bool" where
  "bitset_test w pos =
     (if 0 \<le> pos \<and> pos < int LENGTH('a) then Inr (bit w (nat pos)) else Inl UndefinedBehaviour)"

definition bitset_set :: "'a::len word \<Rightarrow> int \<Rightarrow> failure + 'a word" where
  "bitset_set w pos =
     (if 0 \<le> pos \<and> pos < int LENGTH('a) then Inr (set_bit (nat pos) w)
      else Inl UndefinedBehaviour)"

section \<open>UpdatedScheduledMeeting::Changeset\<close>

text \<open>The change types of a scheduled-meeting update; \<^verbatim>\<open>addChange\<close> and
  \<^verbatim>\<open>hasChanged\<close> take them as \<^verbatim>\<open>int\<close>.\<close>

definition CHANGE_TYPE_TITLE :: c_int where
  "CHANGE_TYPE_TITLE = 0"

definition CHANGE_TYPE_DESCRIPTION :: c_int where
  "CHANGE_TYPE_DESCRIPTION = 1"

definition CHANGE_TYPE_CANCELLED :: c_int where
  "CHANGE_TYPE_CANCELLED = 2"

definition CHANGE_TYPE_TIMEZONE :: c_int where
  "CHANGE_TYPE_TIMEZONE = 3"

definition CHANGE_TYPE_STARTDATE :: c_int where
  "CHANGE_TYPE_STARTDATE = 4"

definition CHANGE_TYPE_ENDDATE :: c_int where
  "CHANGE_TYPE_ENDDATE = 5"

definition CHANGE_TYPE_RULES :: c_int where
  "CHANGE_TYPE_RULES = 6"

definition CHANGE_TYPE_SIZE :: c_int where
  "CHANGE_TYPE_SIZE = 7"

record TitleChangeset =
  oldValue :: string
  newValue :: string

text \<open>\<^verbatim>\<open>std::bitset<CHANGE_TYPE_SIZE>\<close> is a word of 7 bits; \<^verbatim>\<open>unique_ptr<TitleChangeset>\<close>
  is an option, \<open>None\<close> the null pointer.\<close>

record Changeset =
  mUpdatedFields :: "7 word"
  mUpdatedTitle :: "TitleChangeset option"

definition Changeset_getUpdatedTitle :: "Changeset \<Rightarrow> TitleChangeset option" where
  "Changeset_getUpdatedTitle cs = mUpdatedTitle cs"

definition Changeset_getChanges :: "Changeset \<Rightarrow> nat" where
  "Changeset_getChanges cs = unat (mUpdatedFields cs)"

definition Changeset_isValidChange :: "c_int \<Rightarrow> bool" where
  "Changeset_isValidChange changeType = (changeType < CHANGE_TYPE_SIZE)"

definition Changeset_hasChanged :: "Changeset \<Rightarrow> c_int \<Rightarrow> failure + bool" where
  "Changeset_hasChanged cs changeType =
     (if Changeset_isValidChange changeType
      then bitset_test (mUpdatedFields cs) (sint changeType)
      else Inr False)"

text \<open>\<^verbatim>\<open>invariant\<close> reads the bitset at the constant position \<^verbatim>\<open>CHANGE_TYPE_TITLE\<close>,
  which is inside it.\<close>

definition Changeset_invariant :: "Changeset \<Rightarrow> bool" where
  "Changeset_invariant cs =
     (size (mUpdatedFields cs) = unat CHANGE_TYPE_SIZE
      \<and> (\<not> bit (mUpdatedFields cs) (unat CHANGE_TYPE_TITLE) \<or> mUpdatedTitle cs \<noteq> None))"

text \<open>\<^verbatim>\<open>Changeset() = default\<close>: no bit set, no title pair.\<close>

definition Changeset_init :: Changeset where
  "Changeset_init = \<lparr>mUpdatedFields = 0, mUpdatedTitle = None\<rparr>"

text \<open>\<^verbatim>\<open>replaceCurrent\<close>: the flags are taken from \<open>src\<close>; the title pair is replaced by a
  copy only when \<open>src\<close> has one, and is otherwise left as it was.\<close>

definition Changeset_replaceCurrent :: "Changeset \<Rightarrow> Changeset \<Rightarrow> Changeset" where
  "Changeset_replaceCurrent this src =
     this\<lparr>mUpdatedFields := mUpdatedFields src,
          mUpdatedTitle :=
            (case mUpdatedTitle src of
               Some t \<Rightarrow> Some \<lparr>oldValue = oldValue t, newValue = newValue t\<rparr>
             | None \<Rightarrow> mUpdatedTitle this)\<rparr>"

text \<open>The copy constructor runs \<^verbatim>\<open>replaceCurrent\<close> on default-initialised members,
  copy assignment runs it on the object assigned to.\<close>

definition Changeset_copy :: "Changeset \<Rightarrow> Changeset" where
  "Changeset_copy src = Changeset_replaceCurrent Changeset_init src"

definition Changeset_assign :: "Changeset \<Rightarrow> Changeset \<Rightarrow> Changeset" where
  "Changeset_assign this src = Changeset_replaceCurrent this src"

text \<open>
  The defaulted move operations move member by member. Moving a \<^verbatim>\<open>std::bitset\<close> copies
  it; moving a \<^verbatim>\<open>unique_ptr\<close> hands the pointer over and leaves the source null. Each
  operation returns the pair (new or assigned object, source after the move); in the
  assignment the two are different objects.
\<close>

definition Changeset_move :: "Changeset \<Rightarrow> Changeset \<times> Changeset" where
  "Changeset_move src =
     (\<lparr>mUpdatedFields = mUpdatedFields src, mUpdatedTitle = mUpdatedTitle src\<rparr>,
      src\<lparr>mUpdatedTitle := None\<rparr>)"

definition Changeset_move_assign :: "Changeset \<Rightarrow> Changeset \<Rightarrow> Changeset \<times> Changeset" where
  "Changeset_move_assign this src =
     (this\<lparr>mUpdatedFields := mUpdatedFields src, mUpdatedTitle := mUpdatedTitle src\<rparr>,
      src\<lparr>mUpdatedTitle := None\<rparr>)"

text \<open>
  Modelled from the spec: the body of \<^verbatim>\<open>Changeset::addChange\<close> is missing from the
  headers. By the spec an operation given a change-type index outside the declared range
  is refused (no bit is set, nothing is mutated); otherwise the flag of the change type is
  set, and the old/new pair is stored for the title, as "title flag set implies title
  pair present" is enforced.
\<close>

definition Changeset_addChange :: "Changeset \<Rightarrow> c_int \<Rightarrow> string \<Rightarrow> string \<Rightarrow> Changeset" where
  "Changeset_addChange cs changeType ov nv =
     (if Changeset_isValidChange changeType
      then cs\<lparr>mUpdatedFields := set_bit (unat changeType) (mUpdatedFields cs),
              mUpdatedTitle :=
                (if changeType = CHANGE_TYPE_TITLE
                 then Some \<lparr>oldValue = ov, newValue = nv\<rparr>
                 else mUpdatedTitle cs)\<rparr>
      else cs)"

record UpdatedScheduledMeeting = ScheduledMeetingBase +
  mUpdatedChangeset :: Changeset

text \<open>The value constructor; \<^verbatim>\<open>mUpdatedChangeset(_cs)\<close> names the parameter, so the
  member is copy-constructed.\<close>

definition UpdatedScheduledMeeting_ctor ::
  "(nameid \<Rightarrow> handle \<Rightarrow> string \<Rightarrow> m_time_t \<Rightarrow> c_unsigned \<Rightarrow> Base) \<Rightarrow>
   handle \<Rightarrow> m_time_t \<Rightarrow> c_unsigned \<Rightarrow> handle \<Rightarrow> handle \<Rightarrow> Changeset \<Rightarrow>
   UpdatedScheduledMeeting" where
  "UpdatedScheduledMeeting_ctor BaseC ou ts i sm parentSM cs =
     ScheduledMeetingBase.extend
       (ScheduledMeetingBase_ctor BaseC ou ts i sm parentSM type_nusm SCHEDULED_USER_ALERT_UPDATE)
       (UpdatedScheduledMeeting.fields (Changeset_copy cs))"

section \<open>Sets and their elements\<close>

text \<open>\<^verbatim>\<open>string_map\<close> is a map from strings to strings; a \<^verbatim>\<open>unique_ptr\<close> is an option.\<close>

record CommonSE =
  mId :: handle
  mKey :: string
  mAttrs :: "(string \<rightharpoonup> string) option"
  mTs :: m_time_t
  mCTs :: m_time_t
  mEncryptedAttrs :: "string option"

record SetElement = CommonSE +
  mSetId :: handle
  mNodeHandle :: handle
  mOrder :: "64 word option"
  mAttrsClearedByLastUpdate :: bool
  mChanges :: "4 word"

text \<open>\<^verbatim>\<open>class Set\<close> is \<open>MegaSet\<close> here, \<open>Set\<close> being the theory of sets of HOL.\<close>

record MegaSet = CommonSE +
  mUser :: handle
  mChanges :: "4 word"

definition CH_EL_SIZE :: c_int where
  "CH_EL_SIZE = 4"

definition CH_SIZE :: c_int where
  "CH_SIZE = 4"

text \<open>\<^verbatim>\<open>SetElement() = default\<close> and \<^verbatim>\<open>Set() = default\<close>, with the default member
  initialisers; \<^verbatim>\<open>UNDEF\<close> is a parameter.\<close>

definition SetElement_init :: "handle \<Rightarrow> SetElement" where
  "SetElement_init UNDEF =
     \<lparr>mId = UNDEF, mKey = [], mAttrs = None, mTs = 0, mCTs = 0, mEncryptedAttrs = None,
      mSetId = UNDEF, mNodeHandle = UNDEF, mOrder = None, mAttrsClearedByLastUpdate = False,
      SetElement.mChanges = 0\<rparr>"

definition MegaSet_init :: "handle \<Rightarrow> MegaSet" where
  "MegaSet_init UNDEF =
     \<lparr>mId = UNDEF, mKey = [], mAttrs = None, mTs = 0, mCTs = 0, mEncryptedAttrs = None,
      mUser = UNDEF, MegaSet.mChanges = 0\<rparr>"

text \<open>
  \<^verbatim>\<open>validChangeType\<close> is \<^verbatim>\<open>assert(typ < typMax); return typ < typMax;\<close> on unsigned
  arguments. A failed \<^verbatim>\<open>assert\<close> aborts the program in a build without \<^verbatim>\<open>NDEBUG\<close>
  and is no code at all in a build with it: the build is the parameter \<open>NDEBUG\<close>, and the
  abort is the value \<open>Inl AssertionFailed\<close>. \<^verbatim>\<open>setChanged\<close> and \<^verbatim>\<open>hasChanged\<close> pass
  their \<^verbatim>\<open>int\<close> as the \<^verbatim>\<open>unsigned\<close> of the same bits and index the bitset with the
  \<^verbatim>\<open>int\<close>.
\<close>

definition validChangeType :: "bool \<Rightarrow> c_unsigned \<Rightarrow> c_unsigned \<Rightarrow> failure + bool" where
  "validChangeType NDEBUG ty tyMax =
     (if \<not> NDEBUG \<and> \<not> ty < tyMax then Inl AssertionFailed else Inr (ty < tyMax))"

definition SetElement_setChanged :: "bool \<Rightarrow> SetElement \<Rightarrow> c_int \<Rightarrow> failure + SetElement" where
  "SetElement_setChanged NDEBUG e changeType =
     (case validChangeType NDEBUG changeType CH_EL_SIZE of
        Inl f \<Rightarrow> Inl f
      | Inr ok \<Rightarrow>
          (if ok
           then (case bitset_set (SetElement.mChanges e) (sint changeType) of
                   Inl f \<Rightarrow> Inl f
                 | Inr w \<Rightarrow> Inr (e\<lparr>SetElement.mChanges := w\<rparr>))
           else Inr e))"

definition SetElement_hasChanged :: "bool \<Rightarrow> SetElement \<Rightarrow> c_int \<Rightarrow> failure + bool" where
  "SetElement_hasChanged NDEBUG e changeType =
     (case validChangeType NDEBUG changeType CH_EL_SIZE of
        Inl f \<Rightarrow> Inl f
      | Inr ok \<Rightarrow>
          (if ok then bitset_test (SetElement.mChanges e) (sint changeType) else Inr False))"

definition MegaSet_setChanged :: "bool \<Rightarrow> MegaSet \<Rightarrow> c_int \<Rightarrow> failure + MegaSet" where
  "MegaSet_setChanged NDEBUG s changeType =
     (case validChangeType NDEBUG changeType CH_SIZE of
        Inl f \<Rightarrow> Inl f
      | Inr ok \<Rightarrow>
          (if ok
           then (case bitset_set (MegaSet.mChanges s) (sint changeType) of
                   Inl f \<Rightarrow> Inl f
                 | Inr w \<Rightarrow> Inr (s\<lparr>MegaSet.mChanges := w\<rparr>))
           else Inr s))"

definition MegaSet_hasChanged :: "bool \<Rightarrow> MegaSet \<Rightarrow> c_int \<Rightarrow> failure + bool" where
  "MegaSet_hasChanged NDEBUG s changeType =
     (case validChangeType NDEBUG changeType CH_SIZE of
        Inl f \<Rightarrow> Inl f
      | Inr ok \<Rightarrow>
          (if ok then bitset_test (MegaSet.mChanges s) (sint changeType) else Inr False))"

text \<open>A change-type index, read as the \<^verbatim>\<open>int\<close> it is passed as, lies outside an
  enumeration of \<open>sz\<close> change types when it is negative or at least \<open>sz\<close>.\<close>

definition outside_range :: "c_int \<Rightarrow> c_int \<Rightarrow> bool" where
  "outside_range changeType sz = (sint changeType < 0 \<or> sint sz \<le> sint changeType)"

section \<open>Properties of scheduled-meeting alerts\<close>

lemma truncate_ScheduledMeetingBase_ctor:
  "Base.truncate (ScheduledMeetingBase_ctor BaseC ou ts i sm parentSM t ty) = BaseC t ou [] ts i"
  by (simp add: ScheduledMeetingBase_ctor_def Base.extend_def Base.truncate_def)

lemma fields_ScheduledMeetingBase_ctor:
  "mSchedMeetingsSubtype (ScheduledMeetingBase_ctor BaseC ou ts i sm parentSM t ty) = ty"
  "mSchedMeetingHandle (ScheduledMeetingBase_ctor BaseC ou ts i sm parentSM t ty) = sm"
  "mParentSMHandle (ScheduledMeetingBase_ctor BaseC ou ts i sm parentSM t ty) = parentSM"
  by (simp_all add: ScheduledMeetingBase_ctor_def Base.extend_def ScheduledMeetingBase.fields_def)

text \<open>An alert whose subtype is \<^verbatim>\<open>SCHEDULED_USER_ALERT_DELETED\<close> is written without a
  parent handle: the branch the deleted-meeting value constructor does not reach.\<close>

lemma serialize_subtype_DELETED:
  "mSchedMeetingsSubtype a = SCHEDULED_USER_ALERT_DELETED \<Longrightarrow>
   ScheduledMeetingBase_serialize bs w32 wh a d =
     (True, wh (mSchedMeetingHandle a) (w32 SCHEDULED_USER_ALERT_DELETED (bs (Base.truncate a) d)))"
  by (simp add: ScheduledMeetingBase_serialize_def SCHEDULED_USER_ALERT_DELETED_def
      SCHEDULED_USER_ALERT_NEW_def SCHEDULED_USER_ALERT_UPDATE_def)

text \<open>
  Claim C9. Every \<^verbatim>\<open>DeletedScheduledMeeting\<close> built by its value constructor has the
  subtype \<^verbatim>\<open>SCHEDULED_USER_ALERT_NEW\<close>, not \<^verbatim>\<open>SCHEDULED_USER_ALERT_DELETED\<close>, and its
  parent handle is \<^verbatim>\<open>UNDEF\<close>; so \<^verbatim>\<open>ScheduledMeetingBase::serialize\<close> writes, after the
  base fields, the subtype, the meeting handle and then a parent handle field holding
  \<^verbatim>\<open>UNDEF\<close>. This holds for every base constructor, base serializer and writer.
\<close>

theorem DeletedScheduledMeeting_subtype_NEW_writes_parent:
  "mSchedMeetingsSubtype (DeletedScheduledMeeting BaseC UNDEF ou ts i sm)
     = SCHEDULED_USER_ALERT_NEW
   \<and> mSchedMeetingsSubtype (DeletedScheduledMeeting BaseC UNDEF ou ts i sm)
     \<noteq> SCHEDULED_USER_ALERT_DELETED
   \<and> mParentSMHandle (DeletedScheduledMeeting BaseC UNDEF ou ts i sm) = UNDEF
   \<and> ScheduledMeetingBase_serialize bs w32 wh (DeletedScheduledMeeting BaseC UNDEF ou ts i sm) d
     = (True, wh UNDEF (wh sm (w32 SCHEDULED_USER_ALERT_NEW (bs (BaseC type_dsm ou [] ts i) d))))"
  by (simp add: DeletedScheduledMeeting_def ScheduledMeetingBase_serialize_def
      truncate_ScheduledMeetingBase_ctor fields_ScheduledMeetingBase_ctor
      SCHEDULED_USER_ALERT_NEW_def SCHEDULED_USER_ALERT_DELETED_def)

section \<open>Change-type indices outside the declared range\<close>

text \<open>An \<^verbatim>\<open>int\<close> that is below a non-negative bound as \<^verbatim>\<open>unsigned\<close> is between 0 and
  the bound as \<^verbatim>\<open>int\<close>.\<close>

lemma unsigned_less_sint:
  fixes ct n :: "32 word"
  assumes lt: "ct < n" and n: "0 \<le> sint n"
  shows "0 \<le> sint ct \<and> sint ct < sint n"
proof -
  have sn: "sint n < 2 ^ 31" using sint_lt [of n] by simp
  have "uint n = take_bit 32 (sint n)" using uint_sint [of n] by simp
  also have "\<dots> = sint n" using n sn by (simp add: take_bit_int_eq_self)
  finally have un: "uint n = sint n" .
  have ult: "uint ct < uint n" using lt by (simp add: word_less_def)
  have "sint ct = signed_take_bit 31 (uint ct)" using sint_uint [of ct] by simp
  also have "\<dots> = uint ct"
  proof (rule signed_take_bit_int_eq_self)
    have "- (2 ^ 31) \<le> (0::int)" by simp
    also have "0 \<le> uint ct" by simp
    finally show "- (2 ^ 31) \<le> uint ct" .
    show "uint ct < 2 ^ 31" using ult un sn by simp
  qed
  finally have "sint ct = uint ct" .
  with ult un show ?thesis by simp
qed

lemma outside_range_not_less:
  fixes ct n :: "32 word"
  assumes h: "outside_range ct n" and n: "0 \<le> sint n"
  shows "\<not> ct < n"
proof
  assume "ct < n"
  then have "0 \<le> sint ct \<and> sint ct < sint n" using n by (rule unsigned_less_sint)
  with h show False by (simp add: outside_range_def)
qed

lemma not_valid_Changeset:
  "outside_range ct CHANGE_TYPE_SIZE \<Longrightarrow> \<not> Changeset_isValidChange ct"
  unfolding Changeset_isValidChange_def
  by (rule outside_range_not_less) (simp_all add: CHANGE_TYPE_SIZE_def)

lemma validChangeType_outside:
  assumes "outside_range ct sz" and "0 \<le> sint sz"
  shows "validChangeType NDEBUG ct sz = (if NDEBUG then Inr False else Inl AssertionFailed)"
  using outside_range_not_less [OF assms] by (simp add: validChangeType_def)

text \<open>A checked index is a position of the bitset, so the bitset is never read or written
  outside its bits.\<close>

lemma bitset_test_checked:
  fixes ct n :: "32 word" and w :: "'a::len word"
  assumes "ct < n" and "0 \<le> sint n" and "sint n \<le> int LENGTH('a)"
  shows "bitset_test w (sint ct) = Inr (bit w (nat (sint ct)))"
  using unsigned_less_sint [OF assms(1,2)] assms(3) by (simp add: bitset_test_def)

lemma bitset_set_checked:
  fixes ct n :: "32 word" and w :: "'a::len word"
  assumes "ct < n" and "0 \<le> sint n" and "sint n \<le> int LENGTH('a)"
  shows "bitset_set w (sint ct) = Inr (set_bit (nat (sint ct)) w)"
  using unsigned_less_sint [OF assms(1,2)] assms(3) by (simp add: bitset_set_def)

lemma Changeset_hasChanged_eq:
  "Changeset_hasChanged cs ct
     = Inr (Changeset_isValidChange ct \<and> bit (mUpdatedFields cs) (nat (sint ct)))"
proof (cases "Changeset_isValidChange ct")
  case True
  then have "ct < CHANGE_TYPE_SIZE" by (simp add: Changeset_isValidChange_def)
  then have "bitset_test (mUpdatedFields cs) (sint ct)
      = Inr (bit (mUpdatedFields cs) (nat (sint ct)))"
    by (rule bitset_test_checked) (simp_all add: CHANGE_TYPE_SIZE_def)
  then show ?thesis using True by (simp add: Changeset_hasChanged_def)
next
  case False
  then show ?thesis by (simp add: Changeset_hasChanged_def)
qed

lemma MegaSet_hasChanged_eq:
  "MegaSet_hasChanged NDEBUG s ct =
     (if ct < CH_SIZE then Inr (bit (MegaSet.mChanges s) (nat (sint ct)))
      else if NDEBUG then Inr False else Inl AssertionFailed)"
proof (cases "ct < CH_SIZE")
  case True
  then have "bitset_test (MegaSet.mChanges s) (sint ct)
      = Inr (bit (MegaSet.mChanges s) (nat (sint ct)))"
    by (rule bitset_test_checked) (simp_all add: CH_SIZE_def)
  then show ?thesis using True by (simp add: MegaSet_hasChanged_def validChangeType_def)
next
  case False
  then show ?thesis by (simp add: MegaSet_hasChanged_def validChangeType_def)
qed

lemma MegaSet_setChanged_eq:
  "MegaSet_setChanged NDEBUG s ct =
     (if ct < CH_SIZE
      then Inr (s\<lparr>MegaSet.mChanges := set_bit (nat (sint ct)) (MegaSet.mChanges s)\<rparr>)
      else if NDEBUG then Inr s else Inl AssertionFailed)"
proof (cases "ct < CH_SIZE")
  case True
  then have "bitset_set (MegaSet.mChanges s) (sint ct)
      = Inr (set_bit (nat (sint ct)) (MegaSet.mChanges s))"
    by (rule bitset_set_checked) (simp_all add: CH_SIZE_def)
  then show ?thesis using True by (simp add: MegaSet_setChanged_def validChangeType_def)
next
  case False
  then show ?thesis by (simp add: MegaSet_setChanged_def validChangeType_def)
qed

lemma SetElement_hasChanged_eq:
  "SetElement_hasChanged NDEBUG e ct =
     (if ct < CH_EL_SIZE then Inr (bit (SetElement.mChanges e) (nat (sint ct)))
      else if NDEBUG then Inr False else Inl AssertionFailed)"
proof (cases "ct < CH_EL_SIZE")
  case True
  then have "bitset_test (SetElement.mChanges e) (sint ct)
      = Inr (bit (SetElement.mChanges e) (nat (sint ct)))"
    by (rule bitset_test_checked) (simp_all add: CH_EL_SIZE_def)
  then show ?thesis using True by (simp add: SetElement_hasChanged_def validChangeType_def)
next
  case False
  then show ?thesis by (simp add: SetElement_hasChanged_def validChangeType_def)
qed

lemma SetElement_setChanged_eq:
  "SetElement_setChanged NDEBUG e ct =
     (if ct < CH_EL_SIZE
      then Inr (e\<lparr>SetElement.mChanges := set_bit (nat (sint ct)) (SetElement.mChanges e)\<rparr>)
      else if NDEBUG then Inr e else Inl AssertionFailed)"
proof (cases "ct < CH_EL_SIZE")
  case True
  then have "bitset_set (SetElement.mChanges e) (sint ct)
      = Inr (set_bit (nat (sint ct)) (SetElement.mChanges e))"
    by (rule bitset_set_checked) (simp_all add: CH_EL_SIZE_def)
  then show ?thesis using True by (simp add: SetElement_setChanged_def validChangeType_def)
next
  case False
  then show ?thesis by (simp add: SetElement_setChanged_def validChangeType_def)
qed

text \<open>Inside the range nothing asserts: the flag is set and read back.\<close>

lemma MegaSet_setChanged_in_range:
  "MegaSet_setChanged NDEBUG (MegaSet_init u) 2 = Inr ((MegaSet_init u)\<lparr>MegaSet.mChanges := 4\<rparr>)"
  by (simp add: MegaSet_setChanged_eq CH_SIZE_def MegaSet_init_def)

lemma Changeset_hasChanged_in_range:
  "Changeset_hasChanged (Changeset_addChange Changeset_init CHANGE_TYPE_RULES [] [])
     CHANGE_TYPE_RULES = Inr True"
  by (simp add: Changeset_hasChanged_eq Changeset_addChange_def Changeset_isValidChange_def
      CHANGE_TYPE_SIZE_def Changeset_init_def CHANGE_TYPE_TITLE_def CHANGE_TYPE_RULES_def)

text \<open>
  Claim C7, as stated, fails: in a build with assertions, \<^verbatim>\<open>Set::hasChanged\<close> called with
  the index 4, one past the last change type of a Set, does not return \<^verbatim>\<open>false\<close>; the
  \<^verbatim>\<open>assert\<close> of \<^verbatim>\<open>validChangeType\<close> fails.
\<close>

theorem hasChanged_out_of_range_asserts:
  "outside_range 4 CH_SIZE
   \<and> MegaSet_hasChanged False (MegaSet_init (- 1)) 4 = Inl AssertionFailed
   \<and> MegaSet_hasChanged False (MegaSet_init (- 1)) 4 \<noteq> Inr False"
  by (simp add: outside_range_def CH_SIZE_def MegaSet_hasChanged_def validChangeType_def)

text \<open>
  Claim C7, amended. For a change-type index outside the declared range of the
  enumeration: \<^verbatim>\<open>Changeset::hasChanged\<close> returns \<^verbatim>\<open>false\<close> and \<^verbatim>\<open>Changeset::addChange\<close>
  leaves the Changeset as it is, with no assertion in either; \<^verbatim>\<open>hasChanged\<close> and
  \<^verbatim>\<open>setChanged\<close> of a Set and of a SetElement return \<^verbatim>\<open>false\<close> and leave the object as
  it is in a build with \<^verbatim>\<open>NDEBUG\<close>, and fail the assertion of \<^verbatim>\<open>validChangeType\<close> in a
  build without it. For no index, in or out of the range, does any of these operations
  read or write a bitset outside its bits.
\<close>

theorem out_of_range_change_type_refused:
  "(outside_range ct CHANGE_TYPE_SIZE \<longrightarrow>
      Changeset_hasChanged cs ct = Inr False \<and> Changeset_addChange cs ct ov nv = cs)
   \<and> (outside_range ct CH_SIZE \<longrightarrow>
      MegaSet_hasChanged True s ct = Inr False \<and> MegaSet_setChanged True s ct = Inr s
      \<and> MegaSet_hasChanged False s ct = Inl AssertionFailed
      \<and> MegaSet_setChanged False s ct = Inl AssertionFailed)
   \<and> (outside_range ct CH_EL_SIZE \<longrightarrow>
      SetElement_hasChanged True e ct = Inr False \<and> SetElement_setChanged True e ct = Inr e
      \<and> SetElement_hasChanged False e ct = Inl AssertionFailed
      \<and> SetElement_setChanged False e ct = Inl AssertionFailed)
   \<and> Changeset_hasChanged cs ct \<noteq> Inl UndefinedBehaviour
   \<and> MegaSet_hasChanged NDEBUG s ct \<noteq> Inl UndefinedBehaviour
   \<and> MegaSet_setChanged NDEBUG s ct \<noteq> Inl UndefinedBehaviour
   \<and> SetElement_hasChanged NDEBUG e ct \<noteq> Inl UndefinedBehaviour
   \<and> SetElement_setChanged NDEBUG e ct \<noteq> Inl UndefinedBehaviour"
proof (intro conjI impI)
  assume "outside_range ct CHANGE_TYPE_SIZE"
  then have nv: "\<not> Changeset_isValidChange ct" by (rule not_valid_Changeset)
  show "Changeset_hasChanged cs ct = Inr False" using nv by (simp add: Changeset_hasChanged_def)
  show "Changeset_addChange cs ct ov nv = cs" using nv by (simp add: Changeset_addChange_def)
next
  assume "outside_range ct CH_SIZE"
  then have n: "\<not> ct < CH_SIZE" by (rule outside_range_not_less) (simp add: CH_SIZE_def)
  show "MegaSet_hasChanged True s ct = Inr False" using n by (simp add: MegaSet_hasChanged_eq)
  show "MegaSet_setChanged True s ct = Inr s" using n by (simp add: MegaSet_setChanged_eq)
  show "MegaSet_hasChanged False s ct = Inl AssertionFailed"
    using n by (simp add: MegaSet_hasChanged_eq)
  show "MegaSet_setChanged False s ct = Inl AssertionFailed"
    using n by (simp add: MegaSet_setChanged_eq)
next
  assume "outside_range ct CH_EL_SIZE"
  then have n: "\<not> ct < CH_EL_SIZE" by (rule outside_range_not_less) (simp add: CH_EL_SIZE_def)
  show "SetElement_hasChanged True e ct = Inr False"
    using n by (simp add: SetElement_hasChanged_eq)
  show "SetElement_setChanged True e ct = Inr e" using n by (simp add: SetElement_setChanged_eq)
  show "SetElement_hasChanged False e ct = Inl AssertionFailed"
    using n by (simp add: SetElement_hasChanged_eq)
  show "SetElement_setChanged False e ct = Inl AssertionFailed"
    using n by (simp add: SetElement_setChanged_eq)
next
  show "Changeset_hasChanged cs ct \<noteq> Inl UndefinedBehaviour"
    by (simp add: Changeset_hasChanged_eq)
  show "MegaSet_hasChanged NDEBUG s ct \<noteq> Inl UndefinedBehaviour"
    by (simp add: MegaSet_hasChanged_eq)
  show "MegaSet_setChanged NDEBUG s ct \<noteq> Inl UndefinedBehaviour"
    by (simp add: MegaSet_setChanged_eq)
  show "SetElement_hasChanged NDEBUG e ct \<noteq> Inl UndefinedBehaviour"
    by (simp add: SetElement_hasChanged_eq)
  show "SetElement_setChanged NDEBUG e ct \<noteq> Inl UndefinedBehaviour"
    by (simp add: SetElement_setChanged_eq)
qed

theorem out_of_range_change_type_refused_witness:
  "outside_range (- 1) CHANGE_TYPE_SIZE \<and> outside_range (- 1) CH_SIZE
   \<and> outside_range (- 1) CH_EL_SIZE
   \<and> Changeset_hasChanged (Changeset_addChange Changeset_init CHANGE_TYPE_RULES [] []) (- 1)
       = Inr False
   \<and> Changeset_addChange Changeset_init (- 1) ''a'' ''b'' = Changeset_init
   \<and> MegaSet_hasChanged True (MegaSet_init (- 1)) (- 1) = Inr False
   \<and> MegaSet_setChanged True (MegaSet_init (- 1)) (- 1) = Inr (MegaSet_init (- 1))
   \<and> MegaSet_hasChanged False (MegaSet_init (- 1)) (- 1) = Inl AssertionFailed
   \<and> MegaSet_setChanged False (MegaSet_init (- 1)) (- 1) = Inl AssertionFailed
   \<and> SetElement_hasChanged True (SetElement_init (- 1)) (- 1) = Inr False
   \<and> SetElement_setChanged True (SetElement_init (- 1)) (- 1) = Inr (SetElement_init (- 1))
   \<and> SetElement_hasChanged False (SetElement_init (- 1)) (- 1) = Inl AssertionFailed
   \<and> SetElement_setChanged False (SetElement_init (- 1)) (- 1) = Inl AssertionFailed"
proof -
  have o: "outside_range (- 1) CHANGE_TYPE_SIZE" "outside_range (- 1) CH_SIZE"
    "outside_range (- 1) CH_EL_SIZE"
    by (simp_all add: outside_range_def)
  show ?thesis
    using o
      out_of_range_change_type_refused [of "- 1"
        "Changeset_addChange Changeset_init CHANGE_TYPE_RULES [] []"
        "''a''" "''b''" "MegaSet_init (- 1)" "SetElement_init (- 1)"]
      out_of_range_change_type_refused [of "- 1" Changeset_init
        "''a''" "''b''" "MegaSet_init (- 1)" "SetElement_init (- 1)"]
    by simp
qed

section \<open>The invariant of a Changeset\<close>

lemma invariant_iff:
  "Changeset_invariant cs \<longleftrightarrow> (bit (mUpdatedFields cs) 0 \<longrightarrow> mUpdatedTitle cs \<noteq> None)"
  by (auto simp add: Changeset_invariant_def word_size CHANGE_TYPE_SIZE_def CHANGE_TYPE_TITLE_def)

lemma invariant_init: "Changeset_invariant Changeset_init"
  by (simp add: invariant_iff Changeset_init_def)

lemma hasChanged_TITLE:
  "Changeset_hasChanged cs CHANGE_TYPE_TITLE = Inr (bit (mUpdatedFields cs) 0)"
  by (simp add: Changeset_hasChanged_eq Changeset_isValidChange_def CHANGE_TYPE_TITLE_def
      CHANGE_TYPE_SIZE_def)

text \<open>\<^verbatim>\<open>replaceCurrent\<close> keeps the invariant of its source whatever the object it
  overwrites held: a title pair it does not replace is only ever an extra one. So the new
  object of a copy construction and the object assigned to in a copy assignment satisfy
  the invariant when the source does, and the source is left as it was.\<close>

lemma invariant_replaceCurrent:
  "Changeset_invariant src \<Longrightarrow> Changeset_invariant (Changeset_replaceCurrent this src)"
  by (auto simp add: invariant_iff Changeset_replaceCurrent_def split: option.splits)

lemma invariant_copy: "Changeset_invariant src \<Longrightarrow> Changeset_invariant (Changeset_copy src)"
  by (simp add: Changeset_copy_def invariant_replaceCurrent)

lemma invariant_assign:
  "Changeset_invariant src \<Longrightarrow> Changeset_invariant (Changeset_assign this src)"
  by (simp add: Changeset_assign_def invariant_replaceCurrent)

lemma replaceCurrent_keeps_old_title:
  "mUpdatedTitle src = None \<Longrightarrow>
   mUpdatedTitle (Changeset_replaceCurrent this src) = mUpdatedTitle this"
  by (simp add: Changeset_replaceCurrent_def)

text \<open>The new object of a move construction and the object assigned to in a move
  assignment hold what the source held.\<close>

lemma fst_Changeset_move: "fst (Changeset_move src) = src"
  by (simp add: Changeset_move_def)

lemma invariant_move_assign:
  "Changeset_invariant src \<Longrightarrow> Changeset_invariant (fst (Changeset_move_assign this src))"
  by (simp add: invariant_iff Changeset_move_assign_def)

text \<open>The source of a move keeps its flags and loses its title pair: it satisfies the
  invariant afterwards exactly when its title flag is clear.\<close>

lemma moved_from_invariant:
  "Changeset_invariant (snd (Changeset_move src)) \<longleftrightarrow> \<not> bit (mUpdatedFields src) 0"
  "Changeset_invariant (snd (Changeset_move_assign this src)) \<longleftrightarrow> \<not> bit (mUpdatedFields src) 0"
  by (simp_all add: invariant_iff Changeset_move_def Changeset_move_assign_def)

text \<open>With \<^verbatim>\<open>addChange\<close> as modelled, a default Changeset given a title change holds the
  title flag and the pair.\<close>

lemma addChange_TITLE:
  "Changeset_addChange Changeset_init CHANGE_TYPE_TITLE ''old'' ''new''
     = \<lparr>mUpdatedFields = 1, mUpdatedTitle = Some \<lparr>oldValue = ''old'', newValue = ''new''\<rparr>\<rparr>"
  by (simp add: Changeset_addChange_def Changeset_isValidChange_def CHANGE_TYPE_TITLE_def
      CHANGE_TYPE_SIZE_def Changeset_init_def)

text \<open>
  Claim C8 fails on the code at the source of a move. A Changeset with the title flag and
  its title pair satisfies the invariant. Move-constructing another Changeset from it
  gives a new object equal to it, and leaves the source with the title flag still set
  (\<^verbatim>\<open>hasChanged(CHANGE_TYPE_TITLE)\<close> is true) and no title pair (\<^verbatim>\<open>getUpdatedTitle()\<close> is
  null): \<^verbatim>\<open>invariant()\<close> is false for the source, against the comment the header states
  the invariant in. Move-assigning from it leaves it in the same state.
\<close>

theorem moved_from_Changeset_breaks_invariant:
  "Changeset_invariant
     \<lparr>mUpdatedFields = 1, mUpdatedTitle = Some \<lparr>oldValue = ''old'', newValue = ''new''\<rparr>\<rparr>
   \<and> fst (Changeset_move
        \<lparr>mUpdatedFields = 1, mUpdatedTitle = Some \<lparr>oldValue = ''old'', newValue = ''new''\<rparr>\<rparr>)
     = \<lparr>mUpdatedFields = 1, mUpdatedTitle = Some \<lparr>oldValue = ''old'', newValue = ''new''\<rparr>\<rparr>
   \<and> snd (Changeset_move
        \<lparr>mUpdatedFields = 1, mUpdatedTitle = Some \<lparr>oldValue = ''old'', newValue = ''new''\<rparr>\<rparr>)
     = \<lparr>mUpdatedFields = 1, mUpdatedTitle = None\<rparr>
   \<and> snd (Changeset_move_assign Changeset_init
        \<lparr>mUpdatedFields = 1, mUpdatedTitle = Some \<lparr>oldValue = ''old'', newValue = ''new''\<rparr>\<rparr>)
     = \<lparr>mUpdatedFields = 1, mUpdatedTitle = None\<rparr>
   \<and> Changeset_hasChanged \<lparr>mUpdatedFields = 1, mUpdatedTitle = None\<rparr> CHANGE_TYPE_TITLE
     = Inr True
   \<and> Changeset_getUpdatedTitle \<lparr>mUpdatedFields = 1, mUpdatedTitle = None\<rparr> = None
   \<and> \<not> Changeset_invariant \<lparr>mUpdatedFields = 1, mUpdatedTitle = None\<rparr>"
  by (simp add: invariant_iff hasChanged_TITLE Changeset_move_def Changeset_move_assign_def
      Changeset_getUpdatedTitle_def)

theorem moved_from_Changeset_breaks_invariant_witness:
  "Changeset_invariant (fst (Changeset_move
      \<lparr>mUpdatedFields = 1, mUpdatedTitle = Some \<lparr>oldValue = ''old'', newValue = ''new''\<rparr>\<rparr>))
   \<and> \<not> Changeset_invariant (snd (Changeset_move
      \<lparr>mUpdatedFields = 1, mUpdatedTitle = Some \<lparr>oldValue = ''old'', newValue = ''new''\<rparr>\<rparr>))
   \<and> \<not> Changeset_invariant (snd (Changeset_move_assign Changeset_init
      \<lparr>mUpdatedFields = 1, mUpdatedTitle = Some \<lparr>oldValue = ''old'', newValue = ''new''\<rparr>\<rparr>))"
  using moved_from_Changeset_breaks_invariant by simp

end
